theory Spec2Isabelle
  imports Complex_Main
begin

section \<open>Data model: the relational tables the order code reads and writes\<close>

text \<open>
  The Python code talks to MySQL through \<^verbatim>\<open>pymysql\<close>.  A table is a list of rows
  in storage order, a row is a record of the columns the code touches, a nullable
  column is an \<open>option\<close>.  The value of a \<^verbatim>\<open>Decimal\<close> or of a \<^verbatim>\<open>DECIMAL\<close> column is a
  rational; what Python's arithmetic and the columns of \<^verbatim>\<open>orders\<close> and \<^verbatim>\<open>order_items\<close> do
  to it is written out where the code computes and inserts.  Python's integers are
  \<open>int\<close>.  Of the constraints of the schema the model keeps the \<^verbatim>\<open>UNIQUE\<close> order number;
  foreign keys (added by database_setup.py only where the \<^verbatim>\<open>ALTER TABLE\<close> succeeds),
  \<^verbatim>\<open>ENUM\<close> domains and the ranges of numeric columns are not enforced by it.
\<close>

type_synonym decimal = rat

text \<open>\<^verbatim>\<open>products\<close>: id, name, is_member_product.\<close>

record product =
  p_id :: int
  p_name :: string
  p_is_member_product :: bool

text \<open>\<^verbatim>\<open>product_skus\<close> (class ProductSku): id, product_id, price, stock (nullable Integer).\<close>

record product_sku =
  s_id :: int
  s_product_id :: int
  s_price :: decimal
  s_stock :: "int option"

text \<open>\<^verbatim>\<open>cart\<close>: user_id, product_id, sku_id, quantity, selected, specifications.\<close>

record cart_entry =
  c_user_id :: int
  c_product_id :: int
  c_sku_id :: int
  c_quantity :: int
  c_selected :: int
  c_specifications :: "string option"

text \<open>\<^verbatim>\<open>orders\<close>: the columns written by \<^verbatim>\<open>OrderManager.create\<close>, \<^verbatim>\<open>update_status\<close>,
  \<^verbatim>\<open>RefundManager.audit\<close> and the scheduler.\<close>

record order_row =
  o_id :: int
  o_order_no :: "string option"
  o_order_number :: "string option"
  o_user_id :: int
  o_total_amount :: decimal
  o_status :: string
  o_is_vip_item :: bool
  o_consignee_name :: "string option"
  o_consignee_phone :: "string option"
  o_province :: "string option"
  o_city :: "string option"
  o_district :: "string option"
  o_shipping_address :: "string option"
  o_delivery_way :: string
  o_pay_way :: string
  o_auto_recv_time :: "int option"
  o_refund_reason :: "string option"

text \<open>\<^verbatim>\<open>order_items\<close>: order_id, product_id, sku_id, quantity, unit_price, total_price.\<close>

record order_item =
  oi_order_id :: int
  oi_product_id :: int
  oi_sku_id :: int
  oi_quantity :: int
  oi_unit_price :: decimal
  oi_total_price :: decimal

text \<open>\<^verbatim>\<open>refunds\<close>: order_number, refund_type, reason, status, reject_reason.\<close>

record refund =
  r_order_number :: string
  r_refund_type :: string
  r_reason :: string
  r_status :: string
  r_reject_reason :: "string option"

text \<open>\<^verbatim>\<open>order_split\<close> (database_setup.py): order_number, item_type ENUM('merchant','pool'),
  amount, pool_type.\<close>

datatype item_type = merchant | pool

record order_split_row =
  os_order_number :: string
  os_item_type :: item_type
  os_amount :: decimal
  os_pool_type :: "string option"

text \<open>Modelled from the spec: the writers of the ledger (the fund split and its reversal)
  are not among the source files.  A split destination, and so a FinanceAccount (spec
  section 3), is the merchant or a named pool.\<close>

type_synonym destination = "item_type \<times> string option"

text \<open>Modelled from the spec: AccountFlow as spec section 3 lists it (account reference,
  signed change amount, resulting balance, flow type, free-text remark); its writers are
  not among the source files.  The remark carries the number of the order the row
  belongs to.\<close>

record account_flow_row =
  af_account :: destination
  af_change_amount :: decimal
  af_balance_after :: decimal
  af_flow_type :: string
  af_remark :: string

text \<open>
  The database.  \<open>has_stock_field\<close> is what \<^verbatim>\<open>get_table_structure(cur, "product_skus")\<close>
  reports for the column \<^verbatim>\<open>stock\<close>; where the column exists it is the Integer column of
  class ProductSku, hence one of the \<^verbatim>\<open>asset_fields\<close> and read through \<^verbatim>\<open>COALESCE(stock, 0)\<close>.
  \<open>orders_auto_increment\<close> is the next \<^verbatim>\<open>AUTO_INCREMENT\<close> id of \<^verbatim>\<open>orders\<close>.
  \<open>finance_accounts\<close> gives each account's running balance.
\<close>

record db =
  users :: "int list"
  products :: "product list"
  product_skus :: "product_sku list"
  has_stock_field :: bool
  cart :: "cart_entry list"
  orders :: "order_row list"
  orders_auto_increment :: int
  order_items :: "order_item list"
  refunds :: "refund list"
  order_split :: "order_split_row list"
  account_flow :: "account_flow_row list"
  finance_accounts :: "destination \<Rightarrow> decimal"

section \<open>Reading the tables back\<close>

text \<open>The order row with a given number (\<^verbatim>\<open>fetchone()\<close> of \<^verbatim>\<open>WHERE order_number = %s\<close>) and
  the lines of an order (\<^verbatim>\<open>WHERE order_id = %s\<close>).\<close>

definition order_by_number :: "db \<Rightarrow> string \<Rightarrow> order_row option" where
  "order_by_number d order_number =
     find (\<lambda>row. o_order_number row = Some order_number) (orders d)"



section \<open>Errors\<close>

text \<open>
  Every \<^verbatim>\<open>raise HTTPException(status_code=..., ...)\<close> of src/api/order/order.py is a
  constructor; \<open>IntegrityError\<close> is what \<^verbatim>\<open>pymysql\<close> raises when the \<^verbatim>\<open>INSERT\<close> of the
  order row meets an existing \<^verbatim>\<open>order_number\<close> (the column is \<^verbatim>\<open>UNIQUE\<close>).
  \<open>InsufficientStock\<close> carries the product id, the stock read and the quantity needed.
\<close>

datatype error =
    BuyNowItemsEmpty
  | ProductNotFound int
  | CustomAddressMissing
  | InsufficientStock int int int
  | IllegalPayWay
  | IntegrityError string

fun status_code :: "error \<Rightarrow> nat" where
  "status_code BuyNowItemsEmpty = 422"
| "status_code (ProductNotFound _) = 404"
| "status_code CustomAddressMissing = 422"
| "status_code (InsufficientStock _ _ _) = 400"
| "status_code IllegalPayWay = 422"
| "status_code (IntegrityError _) = 500"

section \<open>Order creation: \<^verbatim>\<open>OrderManager.create\<close> (src/api/order/order.py)\<close>

subsection \<open>Request, environment, assembled lines\<close>

text \<open>A buy-now item is the dict with the keys the loop reads; \<^verbatim>\<open>Decimal(str(it["price"]))\<close>
  is the price as an exact decimal.\<close>

record buy_now_item =
  bi_product_id :: int
  bi_sku_id :: int
  bi_quantity :: int
  bi_price :: decimal

text \<open>The dict every later step iterates over (\<^verbatim>\<open>items\<close>).\<close>

record item =
  i_sku_id :: int
  i_product_id :: int
  i_quantity :: int
  i_price :: decimal
  i_is_vip :: bool

text \<open>The arguments of \<^verbatim>\<open>create\<close>; \<^verbatim>\<open>custom_addr\<close> is a dict, kept as an association list.\<close>

record order_create =
  oc_user_id :: int
  oc_address_id :: "int option"
  oc_custom_addr :: "(string \<times> string) list option"
  oc_specifications :: "string option"
  oc_buy_now :: bool
  oc_buy_now_items :: "buy_now_item list option"
  oc_delivery_way :: string

text \<open>What the call reads from outside the database: \<^verbatim>\<open>datetime.now()\<close> (as seconds and
  as its \<^verbatim>\<open>strftime("%Y%m%d%H%M%S")\<close>) and \<^verbatim>\<open>str(uuid.uuid4().int)\<close>.\<close>

record env =
  now :: int
  now_strftime :: string
  uuid4_digits :: string

record shipping =
  sh_consignee_name :: "string option"
  sh_consignee_phone :: "string option"
  sh_province :: "string option"
  sh_city :: "string option"
  sh_district :: "string option"
  sh_shipping_address :: "string option"

subsection \<open>\<^verbatim>\<open>str(user_id)\<close>\<close>

definition digit_char :: "nat \<Rightarrow> char" where
  "digit_char n = ''0123456789'' ! n"

fun str_nat :: "nat \<Rightarrow> string" where
  "str_nat n = (if n < 10 then [digit_char n] else str_nat (n div 10) @ [digit_char (n mod 10)])"

declare str_nat.simps [simp del]

definition str_int :: "int \<Rightarrow> string" where
  "str_int i = (if i < 0 then CHR ''-'' # str_nat (nat (- i)) else str_nat (nat i))"

subsection \<open>Step 1: assembling the lines\<close>

text \<open>\<^verbatim>\<open>SELECT is_member_product FROM products WHERE id = %s\<close>, \<^verbatim>\<open>fetchone()\<close>.\<close>

definition find_product :: "db \<Rightarrow> int \<Rightarrow> product option" where
  "find_product d product_id = find (\<lambda>p. p_id p = product_id) (products d)"

text \<open>The buy-now loop: the first item whose product is missing raises 404.\<close>

fun buy_now_lines :: "db \<Rightarrow> buy_now_item list \<Rightarrow> error + item list" where
  "buy_now_lines d [] = Inr []"
| "buy_now_lines d (it # its) =
     (case find_product d (bi_product_id it) of
        None \<Rightarrow> Inl (ProductNotFound (bi_product_id it))
      | Some prod_row \<Rightarrow>
          (case buy_now_lines d its of
             Inl e \<Rightarrow> Inl e
           | Inr items \<Rightarrow>
               Inr (\<lparr>i_sku_id = bi_sku_id it, i_product_id = bi_product_id it,
                     i_quantity = bi_quantity it, i_price = bi_price it,
                     i_is_vip = p_is_member_product prod_row\<rparr> # items)))"

text \<open>The cart query: \<^verbatim>\<open>cart c JOIN product_skus s ON s.id = c.sku_id JOIN products p ON
  p.id = c.product_id WHERE c.user_id = %s AND c.selected = 1\<close>.\<close>

definition cart_lines :: "db \<Rightarrow> int \<Rightarrow> item list" where
  "cart_lines d user_id =
     [\<lparr>i_sku_id = c_sku_id c, i_product_id = c_product_id c, i_quantity = c_quantity c,
       i_price = s_price s, i_is_vip = p_is_member_product p\<rparr>.
        c \<leftarrow> cart d, c_user_id c = user_id \<and> c_selected c = 1,
        s \<leftarrow> product_skus d, s_id s = c_sku_id c,
        p \<leftarrow> products d, p_id p = c_product_id c]"

text \<open>\<^verbatim>\<open>custom_addr.get(key)\<close> and \<^verbatim>\<open>custom_addr.get(key, "")\<close>.\<close>

definition dict_get :: "(string \<times> string) list \<Rightarrow> string \<Rightarrow> string option" where
  "dict_get a k = map_of a k"

definition dict_get_default :: "(string \<times> string) list \<Rightarrow> string \<Rightarrow> string \<Rightarrow> string option" where
  "dict_get_default a k dflt = (case map_of a k of None \<Rightarrow> Some dflt | Some v \<Rightarrow> Some v)"

definition shipping_of :: "(string \<times> string) list \<Rightarrow> shipping" where
  "shipping_of a =
     \<lparr>sh_consignee_name = dict_get a ''consignee_name'',
      sh_consignee_phone = dict_get a ''consignee_phone'',
      sh_province = dict_get_default a ''province'' [],
      sh_city = dict_get_default a ''city'' [],
      sh_district = dict_get_default a ''district'' [],
      sh_shipping_address = dict_get_default a ''detail'' []\<rparr>"

definition no_shipping :: shipping where
  "no_shipping =
     \<lparr>sh_consignee_name = None, sh_consignee_phone = None, sh_province = None,
      sh_city = None, sh_district = None, sh_shipping_address = None\<rparr>"

text \<open>Python truthiness of an optional list or dict: \<^verbatim>\<open>None\<close> and the empty one are false.\<close>

fun truthy_list :: "'a list option \<Rightarrow> bool" where
  "truthy_list None = False"
| "truthy_list (Some xs) = (xs \<noteq> [])"

text \<open>Step 1 as a whole: an error, \<^verbatim>\<open>return None\<close> (empty cart), or the lines and the
  shipping snapshot.\<close>

definition assemble :: "db \<Rightarrow> order_create \<Rightarrow> error + (item list \<times> shipping) option" where
  "assemble d req =
     (if oc_buy_now req then
        (if \<not> truthy_list (oc_buy_now_items req) then Inl BuyNowItemsEmpty
         else
           (case buy_now_lines d (the (oc_buy_now_items req)) of
              Inl e \<Rightarrow> Inl e
            | Inr items \<Rightarrow>
                (if truthy_list (oc_custom_addr req)
                 then Inr (Some (items, shipping_of (the (oc_custom_addr req))))
                 else Inl CustomAddressMissing)))
      else
        (let items = cart_lines d (oc_user_id req)
         in if items = [] then Inr None else Inr (Some (items, no_shipping))))"

subsection \<open>\<^verbatim>\<open>Decimal\<close> arithmetic and \<^verbatim>\<open>DECIMAL\<close> columns\<close>

text \<open>
  A \<^verbatim>\<open>Decimal\<close> is modelled by its value.  \<^verbatim>\<open>Decimal(str(x))\<close> is exact; \<^verbatim>\<open>*\<close> and \<^verbatim>\<open>+\<close>
  compute the exact result and round it to the 28 significant digits of Python's default
  context, ties to the even digit (\<^verbatim>\<open>ROUND_HALF_EVEN\<close>).  The exponent limits of the
  context and the special values are outside the model.
\<close>

text \<open>The number of decimal digits of a natural number.\<close>

fun ndigits :: "nat \<Rightarrow> nat" where
  "ndigits n = (if n < 10 then 1 else Suc (ndigits (n div 10)))"

declare ndigits.simps [simp del]

text \<open>Ten to an integer power.\<close>

definition pow10 :: "int \<Rightarrow> rat" where
  "pow10 k = (if 0 \<le> k then 10 ^ nat k else 1 / 10 ^ nat (- k))"

text \<open>The position of the leading digit of a non-zero value: the \<open>e\<close> with
  \<open>10 ^ e \<le> \<bar>x\<bar>\<close> and \<open>\<bar>x\<bar> < 10 ^ (e + 1)\<close> (\<^verbatim>\<open>Decimal.adjusted()\<close>).\<close>

definition adjusted :: "rat \<Rightarrow> int" where
  "adjusted x =
     (if 1 \<le> \<bar>x\<bar> then int (ndigits (nat \<lfloor>\<bar>x\<bar>\<rfloor>)) - 1
      else (let d = int (ndigits (nat \<lfloor>1 / \<bar>x\<bar>\<rfloor>))
            in if 1 \<le> \<bar>x\<bar> * pow10 (d - 1) then - (d - 1) else - d))"

definition round_half_even :: "rat \<Rightarrow> int" where
  "round_half_even y =
     (let f = \<lfloor>y\<rfloor>; r = y - of_int f
      in if r < 1 / 2 then f else if 1 / 2 < r then f + 1 else if even f then f else f + 1)"

text \<open>Rounding to the context's precision of 28 significant digits.\<close>

definition ctx_round :: "rat \<Rightarrow> rat" where
  "ctx_round x =
     (if x = 0 then 0
      else (let q = pow10 (adjusted x - 27) in of_int (round_half_even (x / q)) * q))"

text \<open>\<^verbatim>\<open>a * b\<close>, \<^verbatim>\<open>a + b\<close> and \<^verbatim>\<open>sum(...)\<close> (which starts from 0 and adds from the left) on
  \<^verbatim>\<open>Decimal\<close> values.\<close>

definition py_mul :: "decimal \<Rightarrow> decimal \<Rightarrow> decimal" where
  "py_mul a b = ctx_round (a * b)"

definition py_add :: "decimal \<Rightarrow> decimal \<Rightarrow> decimal" where
  "py_add a b = ctx_round (a + b)"

definition py_sum :: "decimal list \<Rightarrow> decimal" where
  "py_sum xs = foldl py_add 0 xs"

text \<open>What a \<^verbatim>\<open>DECIMAL(p,2)\<close> column keeps of a value written to it: MySQL rounds to two
  decimal places, halves away from zero.  The range of the column is not modelled.\<close>

definition store_decimal2 :: "decimal \<Rightarrow> decimal" where
  "store_decimal2 x = sgn x * of_int \<lfloor>\<bar>x\<bar> * 100 + 1 / 2\<rfloor> / 100"

text \<open>A value with at most two decimal places.\<close>

definition two_places :: "decimal \<Rightarrow> bool" where
  "two_places x = (of_int \<lfloor>x * 100\<rfloor> = x * 100)"

subsection \<open>Step 2: the order row\<close>

text \<open>\<^verbatim>\<open>Decimal(str(i["quantity"])) * Decimal(str(i["price"]))\<close> and the \<^verbatim>\<open>sum\<close> of these
  products over the lines (line 85).\<close>

definition line_total :: "item \<Rightarrow> decimal" where
  "line_total i = py_mul (of_int (i_quantity i)) (i_price i)"

definition order_total :: "item list \<Rightarrow> decimal" where
  "order_total items = py_sum (map line_total items)"

definition has_vip_of :: "item list \<Rightarrow> bool" where
  "has_vip_of items = list_ex i_is_vip items"

definition order_number_of :: "env \<Rightarrow> int \<Rightarrow> string" where
  "order_number_of e user_id = now_strftime e @ str_int user_id @ take 6 (uuid4_digits e)"

text \<open>The row of the \<^verbatim>\<open>INSERT INTO orders\<close>; \<^verbatim>\<open>total_amount\<close> is a \<^verbatim>\<open>DECIMAL(12,2)\<close> column.\<close>

definition new_order :: "env \<Rightarrow> order_create \<Rightarrow> int \<Rightarrow> string \<Rightarrow> decimal \<Rightarrow> bool \<Rightarrow> shipping \<Rightarrow> order_row" where
  "new_order e req oid order_number total_amount has_vip addr =
     \<lparr>o_id = oid, o_order_no = None, o_order_number = Some order_number,
      o_user_id = oc_user_id req, o_total_amount = store_decimal2 total_amount,
      o_status = ''pending_pay'',
      o_is_vip_item = has_vip,
      o_consignee_name = sh_consignee_name addr, o_consignee_phone = sh_consignee_phone addr,
      o_province = sh_province addr, o_city = sh_city addr, o_district = sh_district addr,
      o_shipping_address = sh_shipping_address addr,
      o_delivery_way = oc_delivery_way req, o_pay_way = ''wechat'',
      o_auto_recv_time = Some (now e + 7 * 86400),
      o_refund_reason = oc_specifications req\<rparr>"

definition order_number_taken :: "db \<Rightarrow> string \<Rightarrow> bool" where
  "order_number_taken d order_number =
     list_ex (\<lambda>row. o_order_number row = Some order_number) (orders d)"

subsection \<open>Step 3: the stock check\<close>

text \<open>\<^verbatim>\<open>SELECT COALESCE(stock, 0) AS stock FROM product_skus WHERE product_id=%s\<close> (or
  \<^verbatim>\<open>0 AS stock\<close> without the column), \<^verbatim>\<open>fetchone()\<close>, and
  \<^verbatim>\<open>result.get('stock', 0) if result else 0\<close>: the first row of the product.\<close>

definition read_stock :: "db \<Rightarrow> int \<Rightarrow> int" where
  "read_stock d product_id =
     (case find (\<lambda>s. s_product_id s = product_id) (product_skus d) of
        None \<Rightarrow> 0
      | Some s \<Rightarrow>
          (if has_stock_field d then (case s_stock s of None \<Rightarrow> 0 | Some v \<Rightarrow> v) else 0))"

fun check_stock :: "db \<Rightarrow> item list \<Rightarrow> error option" where
  "check_stock d [] = None"
| "check_stock d (i # rest) =
     (let product_stock = read_stock d (i_product_id i)
      in if product_stock < i_quantity i
         then Some (InsufficientStock (i_product_id i) product_stock (i_quantity i))
         else check_stock d rest)"

subsection \<open>Steps 4 to 6: order lines, stock, cart\<close>

text \<open>The rows of the \<^verbatim>\<open>INSERT INTO order_items\<close> (lines 134-145): the price and the
  \<^verbatim>\<open>Decimal\<close> product of quantity and price, written to \<^verbatim>\<open>DECIMAL(12,2)\<close> columns.\<close>

definition new_order_items :: "int \<Rightarrow> item list \<Rightarrow> order_item list" where
  "new_order_items oid items =
     map (\<lambda>i. \<lparr>oi_order_id = oid, oi_product_id = i_product_id i, oi_sku_id = i_sku_id i,
               oi_quantity = i_quantity i, oi_unit_price = store_decimal2 (i_price i),
               oi_total_price = store_decimal2 (line_total i)\<rparr>) items"

text \<open>\<^verbatim>\<open>UPDATE product_skus SET stock = stock - %s WHERE product_id = %s\<close>: every row of the
  product; a \<^verbatim>\<open>NULL\<close> stock stays \<^verbatim>\<open>NULL\<close>.\<close>

definition deduct :: "int \<Rightarrow> int \<Rightarrow> product_sku list \<Rightarrow> product_sku list" where
  "deduct quantity product_id skus =
     map (\<lambda>s. if s_product_id s = product_id
               then s\<lparr>s_stock := map_option (\<lambda>v. v - quantity) (s_stock s)\<rparr> else s) skus"

fun deduct_all :: "item list \<Rightarrow> product_sku list \<Rightarrow> product_sku list" where
  "deduct_all [] skus = skus"
| "deduct_all (i # rest) skus = deduct_all rest (deduct (i_quantity i) (i_product_id i) skus)"

text \<open>\<^verbatim>\<open>DELETE FROM cart WHERE user_id = %s AND selected = 1\<close>.\<close>

definition clear_cart :: "int \<Rightarrow> cart_entry list \<Rightarrow> cart_entry list" where
  "clear_cart user_id entries =
     filter (\<lambda>c. \<not> (c_user_id c = user_id \<and> c_selected c = 1)) entries"

section \<open>Fund split and its reversal\<close>

text \<open>
  Modelled from the spec: \<^verbatim>\<open>services.finance_service.split_order_funds\<close> is imported by
  src/api/order/order.py and is not among the source files.  Spec section 4.3: a
  deterministic partition of the total across the merchant and a fixed set of pools; the
  percentage table is configuration, premium orders use another table; amounts are
  rounded to the minor unit, and the rounding remainder goes to a designated pool; one
  AccountFlow row (incrementing the account's balance) and one OrderSplit row per
  destination.  Here the routine works on the total as the order row keeps it (two
  decimal places): every listed destination gets its rate's share rounded down to a
  hundredth, and the designated pool gets what is left of the total.
\<close>

record split_table =
  t_shares :: "(destination \<times> rat) list"
  t_designated_pool :: string

text \<open>Modelled from the spec: the configuration of the absent split routine, one table
  for ordinary orders and one for orders with a premium item (spec section 4.3).\<close>

record split_config =
  ordinary_table :: split_table
  premium_table :: split_table

text \<open>Modelled from the spec: rounding to the currency's minor unit (spec section 4.3),
  taken downwards, for the absent split routine.\<close>

definition round_minor :: "decimal \<Rightarrow> decimal" where
  "round_minor x = of_int \<lfloor>x * 100\<rfloor> / 100"

text \<open>Modelled from the spec: the partition computed by the absent split routine; the
  last entry is the designated pool with the remainder (spec section 4.3).\<close>

definition split_amounts :: "split_table \<Rightarrow> decimal \<Rightarrow> (destination \<times> decimal) list" where
  "split_amounts t total_amount =
     (let shares = map (\<lambda>(dst, rate). (dst, round_minor (total_amount * rate))) (t_shares t)
      in shares @ [((pool, Some (t_designated_pool t)), total_amount - sum_list (map snd shares))])"

text \<open>Modelled from the spec: one ledger entry of the absent split and reversal routines;
  the balance changes together with its AccountFlow row (spec section 3).\<close>

definition post_flow :: "string \<Rightarrow> string \<Rightarrow> destination \<Rightarrow> decimal \<Rightarrow> db \<Rightarrow> db" where
  "post_flow flow_type remark dst amount d =
     (let balance = finance_accounts d dst + amount
      in d\<lparr>account_flow := account_flow d @
              [\<lparr>af_account = dst, af_change_amount = amount, af_balance_after = balance,
                af_flow_type = flow_type, af_remark = remark\<rparr>],
           finance_accounts := (finance_accounts d)(dst := balance)\<rparr>)"

text \<open>Modelled from the spec: the OrderSplit row the absent split routine writes for a
  destination (columns of table order_split in database_setup.py).\<close>

definition split_row :: "string \<Rightarrow> destination \<Rightarrow> decimal \<Rightarrow> order_split_row" where
  "split_row order_number dst amount =
     \<lparr>os_order_number = order_number, os_item_type = fst dst, os_amount = amount,
      os_pool_type = snd dst\<rparr>"

text \<open>Modelled from the spec: the writes of the absent split routine, one AccountFlow
  row and one OrderSplit row per destination (spec section 4.3).\<close>

fun write_split :: "string \<Rightarrow> (destination \<times> decimal) list \<Rightarrow> db \<Rightarrow> db" where
  "write_split order_number [] d = d"
| "write_split order_number ((dst, amount) # rest) d =
     write_split order_number rest
       ((post_flow ''order_split'' order_number dst amount d)
          \<lparr>order_split := order_split d @ [split_row order_number dst amount]\<rparr>)"

text \<open>Modelled from the spec: \<^verbatim>\<open>split_order_funds(order_number, total, has_vip, cursor)\<close>,
  absent from the source files; the premium flag selects the table, and the total is
  taken in the currency's minor unit, as the order row keeps it (spec section 4.3).\<close>

definition split_order_funds :: "split_config \<Rightarrow> string \<Rightarrow> decimal \<Rightarrow> bool \<Rightarrow> db \<Rightarrow> db" where
  "split_order_funds cfg order_number total_amount has_vip d =
     write_split order_number
       (split_amounts (if has_vip then premium_table cfg else ordinary_table cfg)
          (store_decimal2 total_amount)) d"

text \<open>
  Modelled from the spec: \<^verbatim>\<open>finance.finance_logic.reverse_split_on_refund\<close> is imported by
  src/order/refund.py and is not among the source files.  Spec section 4.4: for each
  prior split destination, an AccountFlow row of the negated amount, decrementing that
  account's balance; the recorded OrderSplit rows are used, nothing is recomputed.
\<close>

text \<open>The recorded OrderSplit rows of an order.\<close>

definition splits_of :: "db \<Rightarrow> string \<Rightarrow> order_split_row list" where
  "splits_of d order_number = filter (\<lambda>s. os_order_number s = order_number) (order_split d)"

text \<open>Modelled from the spec: the writes of the absent reversal routine, one negated
  AccountFlow row per recorded OrderSplit row (spec section 4.4).\<close>

fun reverse_rows :: "string \<Rightarrow> order_split_row list \<Rightarrow> db \<Rightarrow> db" where
  "reverse_rows order_number [] d = d"
| "reverse_rows order_number (s # rest) d =
     reverse_rows order_number rest
       (post_flow ''refund_reversal'' order_number (os_item_type s, os_pool_type s)
          (- os_amount s) d)"


text \<open>What an order has contributed to an account: the sum of the AccountFlow rows that
  carry its number.\<close>

definition net_flow :: "db \<Rightarrow> string \<Rightarrow> destination \<Rightarrow> decimal" where
  "net_flow d order_number a =
     sum_list (map af_change_amount
       (filter (\<lambda>f. af_remark f = order_number \<and> af_account f = a) (account_flow d)))"

definition split_sum :: "db \<Rightarrow> string \<Rightarrow> destination \<Rightarrow> decimal" where
  "split_sum d order_number a =
     sum_list (map os_amount
       (filter (\<lambda>s. (os_item_type s, os_pool_type s) = a) (splits_of d order_number)))"




section \<open>\<^verbatim>\<open>OrderManager.create\<close> as a whole\<close>

text \<open>
  Steps 4 to 7 and the commit, on the database that already holds the order row.
  \<^verbatim>\<open>split_order_funds(order_number, total, has_vip, cursor=cur)\<close> runs on the same cursor,
  inside the transaction.
\<close>

definition write_order :: "split_config \<Rightarrow> order_create \<Rightarrow> int \<Rightarrow> string \<Rightarrow> item list \<Rightarrow> db \<Rightarrow> db" where
  "write_order cfg req oid order_number items d1 =
     (let d2 = d1\<lparr>order_items := order_items d1 @ new_order_items oid items\<rparr>;
          d3 = (if has_stock_field d2
                then d2\<lparr>product_skus := deduct_all items (product_skus d2)\<rparr> else d2);
          d4 = (if \<not> oc_buy_now req
                then d3\<lparr>cart := clear_cart (oc_user_id req) (cart d3)\<rparr> else d3)
      in split_order_funds cfg order_number (order_total items) (has_vip_of items) d4)"

text \<open>The \<^verbatim>\<open>INSERT INTO orders\<close> of step 2; \<^verbatim>\<open>cur.lastrowid\<close> is the id the counter gave.\<close>

definition insert_order :: "env \<Rightarrow> order_create \<Rightarrow> item list \<Rightarrow> shipping \<Rightarrow> db \<Rightarrow> db" where
  "insert_order e req items addr d =
     d\<lparr>orders := orders d @
            [new_order e req (orders_auto_increment d) (order_number_of e (oc_user_id req))
               (order_total items) (has_vip_of items) addr],
       orders_auto_increment := orders_auto_increment d + 1\<rparr>"

text \<open>
  The whole call.  An exception leaves \<^verbatim>\<open>with get_conn()\<close> through
  \<^verbatim>\<open>conn.rollback(); raise\<close> (src/core/database.py), so the database is the one the call
  started from; \<^verbatim>\<open>return None\<close> comes before any write.
\<close>

definition create :: "split_config \<Rightarrow> env \<Rightarrow> order_create \<Rightarrow> db \<Rightarrow> (error + string option) \<times> db" where
  "create cfg e req d =
     (case assemble d req of
        Inl err \<Rightarrow> (Inl err, d)
      | Inr None \<Rightarrow> (Inr None, d)
      | Inr (Some (items, addr)) \<Rightarrow>
          (let order_number = order_number_of e (oc_user_id req);
               oid = orders_auto_increment d
           in if order_number_taken d order_number
              then (Inl (IntegrityError order_number), d)
              else
                (let d1 = insert_order e req items addr d
                 in case check_stock d1 items of
                      Some err \<Rightarrow> (Inl err, d)
                    | None \<Rightarrow>
                        (Inr (Some order_number),
                         write_order cfg req oid order_number items d1))))"

section \<open>Refund workflow: \<^verbatim>\<open>RefundManager.apply\<close> (src/order/refund.py)\<close>

text \<open>
  \<^verbatim>\<open>SELECT id FROM refunds WHERE order_number=%s\<close>; a row means \<^verbatim>\<open>return False\<close>
  (nothing was written, the connection closes uncommitted); otherwise the
  \<^verbatim>\<open>INSERT\<close> of an \<^verbatim>\<open>'applied'\<close> row is committed and the result is \<^verbatim>\<open>True\<close>.
\<close>

definition refunds_of :: "db \<Rightarrow> string \<Rightarrow> refund list" where
  "refunds_of d order_number = filter (\<lambda>r. r_order_number r = order_number) (refunds d)"

definition apply_refund :: "string \<Rightarrow> string \<Rightarrow> string \<Rightarrow> db \<Rightarrow> bool \<times> db" where
  "apply_refund order_number refund_type reason_code d =
     (if refunds_of d order_number \<noteq> [] then (False, d)
      else (True, d\<lparr>refunds := refunds d @
              [\<lparr>r_order_number = order_number, r_refund_type = refund_type,
                r_reason = reason_code, r_status = ''applied'', r_reject_reason = None\<rparr>]\<rparr>))"

text \<open>Repeated calls for one order number, each with its own type and reason: the list
  of results and the final database.\<close>

fun apply_many :: "string \<Rightarrow> (string \<times> string) list \<Rightarrow> db \<Rightarrow> bool list \<times> db" where
  "apply_many order_number [] d = ([], d)"
| "apply_many order_number ((t, r) # rest) d =
     (let (ok, d1) = apply_refund order_number t r d;
          (oks, d2) = apply_many order_number rest d1
      in (ok # oks, d2))"

section \<open>Refund audit: \<^verbatim>\<open>RefundManager.audit\<close> (src/order/refund.py)\<close>




section \<open>Status updates, payment and the read paths (src/api/order/order.py)\<close>

text \<open>
  \<^verbatim>\<open>UPDATE orders SET status = %s, refund_reason = %s WHERE order_number = %s\<close>, commit,
  \<^verbatim>\<open>return cur.rowcount > 0\<close>.  \<^verbatim>\<open>rowcount\<close> is MySQL's count of affected rows: the
  matching rows whose values changed.
\<close>

definition set_status :: "string \<Rightarrow> string option \<Rightarrow> order_row \<Rightarrow> order_row" where
  "set_status new_status reason row = row\<lparr>o_status := new_status, o_refund_reason := reason\<rparr>"

definition update_status :: "string \<Rightarrow> string \<Rightarrow> string option \<Rightarrow> db \<Rightarrow> bool \<times> db" where
  "update_status order_number new_status reason d =
     (let rowcount = length (filter (\<lambda>row. o_order_number row = Some order_number \<and>
                         \<not> (o_status row = new_status \<and> o_refund_reason row = reason)) (orders d))
      in (rowcount > 0,
          d\<lparr>orders := map (\<lambda>row. if o_order_number row = Some order_number
                                  then set_status new_status reason row else row) (orders d)\<rparr>))"

text \<open>The route \<^verbatim>\<open>/pay\<close>.  \<^verbatim>\<open>core.config.VALID_PAY_WAYS\<close> is not among the source files: it
  is a parameter.\<close>

record order_pay_body =
  op_order_number :: string
  op_pay_way :: string

definition order_pay :: "string list \<Rightarrow> order_pay_body \<Rightarrow> db \<Rightarrow> (error + bool) \<times> db" where
  "order_pay VALID_PAY_WAYS body d =
     (if op_pay_way body \<notin> set VALID_PAY_WAYS then (Inl IllegalPayWay, d)
      else (let (ok, d') = update_status (op_order_number body) ''pending_ship'' None d
            in (Inr ok, d')))"

text \<open>\<^verbatim>\<open>OrderManager.detail\<close>: the order row, the address (if any part of it is truthy),
  the order lines joined with the product name, and \<^verbatim>\<open>order_info.get("refund_reason")\<close>
  as the specifications.\<close>

record order_detail =
  od_order_info :: order_row
  od_address :: "shipping option"
  od_items :: "(order_item \<times> string) list"
  od_specifications :: "string option"

fun truthy_str :: "string option \<Rightarrow> bool" where
  "truthy_str None = False"
| "truthy_str (Some s) = (s \<noteq> [])"

definition items_with_name :: "db \<Rightarrow> int \<Rightarrow> (order_item \<times> string) list" where
  "items_with_name d oid =
     [(l, p_name p). l \<leftarrow> order_items d, oi_order_id l = oid,
                     p \<leftarrow> products d, p_id p = oi_product_id l]"

definition address_of :: "order_row \<Rightarrow> shipping option" where
  "address_of row =
     (if truthy_str (o_consignee_name row) \<or> truthy_str (o_consignee_phone row) \<or>
         truthy_str (o_province row) \<or> truthy_str (o_city row) \<or>
         truthy_str (o_district row) \<or> truthy_str (o_shipping_address row)
      then Some \<lparr>sh_consignee_name = o_consignee_name row,
                 sh_consignee_phone = o_consignee_phone row,
                 sh_province = o_province row, sh_city = o_city row,
                 sh_district = o_district row,
                 sh_shipping_address = o_shipping_address row\<rparr>
      else None)"

definition detail :: "string \<Rightarrow> db \<Rightarrow> order_detail option" where
  "detail order_number d =
     (case order_by_number d order_number of
        None \<Rightarrow> None
      | Some order_info \<Rightarrow>
          Some \<lparr>od_order_info = order_info, od_address = address_of order_info,
                od_items = items_with_name d (o_id order_info),
                od_specifications = o_refund_reason order_info\<rparr>)"

text \<open>\<^verbatim>\<open>OrderManager.list_by_user\<close>: the user's orders (of one status, if a truthy status is
  given), newest first (rows are stored in creation order), each with its first line and
  \<^verbatim>\<open>o.get("refund_reason")\<close> as the specifications.\<close>

record list_entry =
  le_order :: order_row
  le_first_product :: "(order_item \<times> string) option"
  le_specifications :: "string option"

definition first_row :: "'a list \<Rightarrow> 'a option" where
  "first_row xs = (case xs of [] \<Rightarrow> None | x # _ \<Rightarrow> Some x)"

definition list_by_user :: "int \<Rightarrow> string option \<Rightarrow> db \<Rightarrow> list_entry list" where
  "list_by_user user_id status d =
     map (\<lambda>row. \<lparr>le_order = row,
                  le_first_product = first_row (items_with_name d (o_id row)),
                  le_specifications = o_refund_reason row\<rparr>)
       (rev (filter (\<lambda>row. o_user_id row = user_id \<and>
                            (if truthy_str status then Some (o_status row) = status else True))
               (orders d)))"

section \<open>Auto-receive scheduler: one tick of \<^verbatim>\<open>auto_receive_task\<close> (src/order/fasteners.py)\<close>

text \<open>
  One pass of the body of \<^verbatim>\<open>while True\<close>: the rows selected with
  \<^verbatim>\<open>status='pending_recv' AND auto_recv_time<=now\<close> are fetched once; for each row the
  \<^verbatim>\<open>UPDATE ... SET status='completed' WHERE id=%s\<close>, then \<^verbatim>\<open>settle_to_merchant\<close>, then
  \<^verbatim>\<open>conn.commit()\<close>.  The \<^verbatim>\<open>try\<close> encloses the whole loop: an exception leaves the loop,
  \<^verbatim>\<open>get_conn\<close> rolls the uncommitted update back, and the handler prints the exception.
  \<^verbatim>\<open>finance.finance_logic.settle_to_merchant\<close> is not among the source files: it is the
  parameter \<open>settle\<close>, acting on a settlement state of its own, and it may raise.
\<close>

definition due :: "int \<Rightarrow> order_row \<Rightarrow> bool" where
  "due now_t row =
     (o_status row = ''pending_recv'' \<and>
      (case o_auto_recv_time row of None \<Rightarrow> False | Some t \<Rightarrow> t \<le> now_t))"

definition complete_order :: "int \<Rightarrow> order_row list \<Rightarrow> order_row list" where
  "complete_order oid rows =
     map (\<lambda>row. if o_id row = oid then row\<lparr>o_status := ''completed''\<rparr> else row) rows"

fun process_rows :: "(decimal \<Rightarrow> 's \<Rightarrow> 'e + 's) \<Rightarrow> order_row list \<Rightarrow> db \<Rightarrow> 's \<Rightarrow> 'e option \<times> db \<times> 's" where
  "process_rows settle [] d s = (None, d, s)"
| "process_rows settle (row # rest) d s =
     (case settle (o_total_amount row) s of
        Inl exn \<Rightarrow> (Some exn, d, s)
      | Inr s' \<Rightarrow>
          process_rows settle rest (d\<lparr>orders := complete_order (o_id row) (orders d)\<rparr>) s')"

definition auto_receive_tick :: "(decimal \<Rightarrow> 's \<Rightarrow> 'e + 's) \<Rightarrow> int \<Rightarrow> db \<Rightarrow> 's \<Rightarrow> 'e option \<times> db \<times> 's" where
  "auto_receive_tick settle now_t d s = process_rows settle (filter (due now_t) (orders d)) d s"

text \<open>How many rows, from the front, a tick gets through: the rows before the first one
  whose settlement raises.\<close>

fun settled_count :: "(decimal \<Rightarrow> 's \<Rightarrow> 'e + 's) \<Rightarrow> order_row list \<Rightarrow> 's \<Rightarrow> nat" where
  "settled_count settle [] s = 0"
| "settled_count settle (row # rest) s =
     (case settle (o_total_amount row) s of
        Inl _ \<Rightarrow> 0
      | Inr s' \<Rightarrow> Suc (settled_count settle rest s'))"

text \<open>The orders table after the orders with the given ids were completed.\<close>

definition completed_ids :: "int list \<Rightarrow> order_row list \<Rightarrow> order_row list" where
  "completed_ids ids rows =
     map (\<lambda>row. if o_id row \<in> set ids then row\<lparr>o_status := ''completed''\<rparr> else row) rows"

section \<open>Example data\<close>

definition empty_db :: db where
  "empty_db =
     \<lparr>users = [], products = [], product_skus = [], has_stock_field = True, cart = [],
      orders = [], orders_auto_increment = 1, order_items = [], refunds = [],
      order_split = [], account_flow = [], finance_accounts = (\<lambda>_. 0)\<rparr>"

text \<open>A shop with two products, one SKU each, and the cart of user 7: one piece at 100.00
  and two pieces at 50.00 (the happy path of spec section 8).\<close>

definition shop_db :: db where
  "shop_db =
     empty_db\<lparr>users := [7],
       products := [\<lparr>p_id = 1, p_name = ''tea'', p_is_member_product = False\<rparr>,
                    \<lparr>p_id = 2, p_name = ''mug'', p_is_member_product = False\<rparr>],
       product_skus := [\<lparr>s_id = 10, s_product_id = 1, s_price = 100, s_stock = Some 5\<rparr>,
                        \<lparr>s_id = 20, s_product_id = 2, s_price = 50, s_stock = Some 3\<rparr>],
       cart := [\<lparr>c_user_id = 7, c_product_id = 1, c_sku_id = 10, c_quantity = 1,
                  c_selected = 1, c_specifications = None\<rparr>,
                \<lparr>c_user_id = 7, c_product_id = 2, c_sku_id = 20, c_quantity = 2,
                  c_selected = 1, c_specifications = None\<rparr>]\<rparr>"

definition env0 :: env where
  "env0 = \<lparr>now = 0, now_strftime = ''20240101120000'', uuid4_digits = ''123456789''\<rparr>"

definition cfg0 :: split_config where
  "cfg0 =
     \<lparr>ordinary_table =
        \<lparr>t_shares = [((merchant, None), 4 / 5), ((pool, Some ''platform''), 1 / 10)],
         t_designated_pool = ''subsidy''\<rparr>,
      premium_table =
        \<lparr>t_shares = [((merchant, None), 1 / 2)], t_designated_pool = ''member''\<rparr>\<rparr>"

definition checkout_req :: order_create where
  "checkout_req =
     \<lparr>oc_user_id = 7, oc_address_id = None, oc_custom_addr = None,
      oc_specifications = Some ''size=L'', oc_buy_now = False, oc_buy_now_items = None,
      oc_delivery_way = ''platform''\<rparr>"

definition buy_now_req :: "int \<Rightarrow> buy_now_item list \<Rightarrow> order_create" where
  "buy_now_req user_id its =
     \<lparr>oc_user_id = user_id, oc_address_id = None,
      oc_custom_addr = Some [(''consignee_name'', ''Li''), (''detail'', ''1 Main St'')],
      oc_specifications = None, oc_buy_now = True, oc_buy_now_items = Some its,
      oc_delivery_way = ''platform''\<rparr>"

text \<open>The same product sold as two SKUs: SKU 10 with 5 in stock, SKU 11 sold out.\<close>

definition two_sku_db :: db where
  "two_sku_db =
     empty_db\<lparr>users := [7],
       products := [\<lparr>p_id = 1, p_name = ''tea'', p_is_member_product = False\<rparr>],
       product_skus := [\<lparr>s_id = 10, s_product_id = 1, s_price = 100, s_stock = Some 5\<rparr>,
                        \<lparr>s_id = 11, s_product_id = 1, s_price = 120, s_stock = Some 0\<rparr>]\<rparr>"

text \<open>An order row as \<^verbatim>\<open>create\<close> writes it, in a given status, and a database holding
  such rows.\<close>

definition sample_order :: "int \<Rightarrow> string \<Rightarrow> string \<Rightarrow> decimal \<Rightarrow> order_row" where
  "sample_order oid order_number status total_amount =
     \<lparr>o_id = oid, o_order_no = None, o_order_number = Some order_number, o_user_id = 7,
      o_total_amount = total_amount, o_status = status, o_is_vip_item = False,
      o_consignee_name = None, o_consignee_phone = None, o_province = None, o_city = None,
      o_district = None, o_shipping_address = None, o_delivery_way = ''platform'',
      o_pay_way = ''wechat'', o_auto_recv_time = Some 100,
      o_refund_reason = Some ''size=L''\<rparr>"

definition orders_db :: "order_row list \<Rightarrow> db" where
  "orders_db rows = empty_db\<lparr>orders := rows, orders_auto_increment := 1 + int (length rows)\<rparr>"

text \<open>A settlement that credits a merchant balance and raises on the amount 200.\<close>

definition settle_demo :: "decimal \<Rightarrow> decimal \<Rightarrow> string + decimal" where
  "settle_demo amount balance = (if amount = 200 then Inl ''boom'' else Inr (balance + amount))"



section \<open>Properties\<close>

subsection \<open>Refund application\<close>

lemma apply_refund_existing:
  "refunds_of d n \<noteq> [] \<Longrightarrow> apply_refund n t r d = (False, d)"
  by (simp add: apply_refund_def)

lemma apply_refund_fresh:
  "refunds_of d n = [] \<Longrightarrow>
   apply_refund n t r d =
     (True, d\<lparr>refunds := refunds d @
        [\<lparr>r_order_number = n, r_refund_type = t, r_reason = r,
          r_status = ''applied'', r_reject_reason = None\<rparr>]\<rparr>)"
  by (simp add: apply_refund_def)

lemma apply_many_existing:
  "refunds_of d n \<noteq> [] \<Longrightarrow> apply_many n args d = (replicate (length args) False, d)"
  by (induction args) (auto simp: apply_refund_existing)

text \<open>
  C5.  Starting from a database with no refund for the order number, the first apply
  returns true and inserts one row in status applied; every later apply for that number
  (whatever its type and reason) returns false and inserts nothing, so the order has
  exactly one refund row, in status applied, after any number of further applies.
\<close>

theorem C5_apply_idempotent:
  assumes "refunds_of d n = []"
  shows "apply_many n ((t, r) # later) d =
           (True # replicate (length later) False, snd (apply_refund n t r d))
         \<and> refunds_of (snd (apply_many n ((t, r) # later) d)) n =
           [\<lparr>r_order_number = n, r_refund_type = t, r_reason = r,
             r_status = ''applied'', r_reject_reason = None\<rparr>]
         \<and> refunds (snd (apply_many n ((t, r) # later) d)) =
           refunds d @ [\<lparr>r_order_number = n, r_refund_type = t, r_reason = r,
             r_status = ''applied'', r_reject_reason = None\<rparr>]"
proof -
  let ?row = "\<lparr>r_order_number = n, r_refund_type = t, r_reason = r,
                r_status = ''applied'', r_reject_reason = None\<rparr>"
  let ?d1 = "d\<lparr>refunds := refunds d @ [?row]\<rparr>"
  have first: "apply_refund n t r d = (True, ?d1)"
    using assms by (rule apply_refund_fresh)
  have of1: "refunds_of ?d1 n = [?row]"
    using assms by (simp add: refunds_of_def)
  then have "refunds_of ?d1 n \<noteq> []" by simp
  then have rest: "apply_many n later ?d1 = (replicate (length later) False, ?d1)"
    by (rule apply_many_existing)
  show ?thesis
    using first rest of1 by simp
qed

theorem C5_apply_idempotent_witness:
  "refunds_of empty_db ''N1'' = []
   \<and> fst (apply_many ''N1'' [(''return'', ''broken''), (''refund_only'', ''again'')] empty_db)
       = [True, False]
   \<and> refunds (snd (apply_many ''N1'' [(''return'', ''broken''), (''refund_only'', ''again'')]
                      empty_db)) =
       [\<lparr>r_order_number = ''N1'', r_refund_type = ''return'', r_reason = ''broken'',
         r_status = ''applied'', r_reject_reason = None\<rparr>]"
proof -
  have h: "refunds_of empty_db ''N1'' = []"
    by (simp add: refunds_of_def empty_db_def)
  show ?thesis
    using h C5_apply_idempotent [OF h, of "''return''" "''broken''" "[(''refund_only'', ''again'')]"]
    by (simp add: empty_db_def apply_refund_def refunds_of_def)
qed

subsection \<open>Frame lemmas for the ledger writes\<close>

lemma post_flow_frame [simp]:
  "users (post_flow ft n dst a d) = users d"
  "products (post_flow ft n dst a d) = products d"
  "product_skus (post_flow ft n dst a d) = product_skus d"
  "has_stock_field (post_flow ft n dst a d) = has_stock_field d"
  "cart (post_flow ft n dst a d) = cart d"
  "orders (post_flow ft n dst a d) = orders d"
  "orders_auto_increment (post_flow ft n dst a d) = orders_auto_increment d"
  "order_items (post_flow ft n dst a d) = order_items d"
  "refunds (post_flow ft n dst a d) = refunds d"
  "order_split (post_flow ft n dst a d) = order_split d"
  by (simp_all add: post_flow_def Let_def)

lemma write_split_frame [simp]:
  "users (write_split n xs d) = users d"
  "products (write_split n xs d) = products d"
  "product_skus (write_split n xs d) = product_skus d"
  "has_stock_field (write_split n xs d) = has_stock_field d"
  "cart (write_split n xs d) = cart d"
  "orders (write_split n xs d) = orders d"
  "orders_auto_increment (write_split n xs d) = orders_auto_increment d"
  "order_items (write_split n xs d) = order_items d"
  "refunds (write_split n xs d) = refunds d"
  by (induction n xs d rule: write_split.induct; simp)+

lemma write_split_rows:
  "order_split (write_split n xs d) = order_split d @ map (\<lambda>(dst, a). split_row n dst a) xs"
  by (induction n xs d rule: write_split.induct) simp_all

lemma write_order_frame:
  "users (write_order cfg req oid n items d1) = users d1"
  "products (write_order cfg req oid n items d1) = products d1"
  "has_stock_field (write_order cfg req oid n items d1) = has_stock_field d1"
  "orders (write_order cfg req oid n items d1) = orders d1"
  "orders_auto_increment (write_order cfg req oid n items d1) = orders_auto_increment d1"
  "refunds (write_order cfg req oid n items d1) = refunds d1"
  "order_items (write_order cfg req oid n items d1) = order_items d1 @ new_order_items oid items"
  "product_skus (write_order cfg req oid n items d1) =
     (if has_stock_field d1 then deduct_all items (product_skus d1) else product_skus d1)"
  "cart (write_order cfg req oid n items d1) =
     (if oc_buy_now req then cart d1 else clear_cart (oc_user_id req) (cart d1))"
  by (simp_all add: write_order_def split_order_funds_def Let_def)

subsection \<open>What a successful creation went through\<close>

lemma create_SomeE:
  assumes "create cfg e req d = (Inr (Some n), d')"
  obtains items addr where
    "assemble d req = Inr (Some (items, addr))"
    "n = order_number_of e (oc_user_id req)"
    "\<not> order_number_taken d n"
    "check_stock (insert_order e req items addr d) items = None"
    "d' = write_order cfg req (orders_auto_increment d) n items (insert_order e req items addr d)"
  using assms
  by (auto simp: create_def Let_def split: sum.splits option.splits if_splits prod.splits)




lemma find_snoc_fresh:
  "\<not> list_ex P xs \<Longrightarrow> P y \<Longrightarrow> find P (xs @ [y]) = Some y"
  by (induction xs) auto

lemma created_order_row:
  assumes "\<not> order_number_taken d n"
    and "n = order_number_of e (oc_user_id req)"
    and "d' = write_order cfg req (orders_auto_increment d) n items (insert_order e req items addr d)"
  shows "order_by_number d' n =
           Some (new_order e req (orders_auto_increment d) n (order_total items)
                   (has_vip_of items) addr)"
proof -
  let ?row = "new_order e req (orders_auto_increment d) n (order_total items) (has_vip_of items) addr"
  have "orders d' = orders d @ [?row]"
    using assms(2,3) by (simp add: write_order_frame insert_order_def)
  moreover have "\<not> list_ex (\<lambda>row. o_order_number row = Some n) (orders d)"
    using assms(1) by (simp add: order_number_taken_def)
  moreover have "o_order_number ?row = Some n"
    by (simp add: new_order_def)
  ultimately show ?thesis
    by (simp add: order_by_number_def find_snoc_fresh)
qed

subsection \<open>\<^verbatim>\<open>Decimal\<close> arithmetic on amounts with two decimal places\<close>

lemma ndigits_le: "n < 10 ^ w \<Longrightarrow> 0 < w \<Longrightarrow> ndigits n \<le> w"
proof (induction n arbitrary: w rule: ndigits.induct)
  case (1 n)
  show ?case
  proof (cases "n < 10")
    case True
    then show ?thesis using "1.prems" by (simp add: ndigits.simps[of n])
  next
    case False
    then have w: "1 < w" using "1.prems" by (cases "w = 1") auto
    then obtain v where v: "w = Suc v" "0 < v" by (cases w) auto
    have "n div 10 < 10 ^ v"
      using "1.prems"(1) v by (simp add: less_mult_imp_div_less mult.commute)
    from "1.IH"[OF False this v(2)] False show ?thesis
      by (simp add: ndigits.simps[of n] v)
  qed
qed

lemma ndigits_pos: "0 < ndigits n"
  by (simp add: ndigits.simps[of n])

lemma adjusted_le:
  assumes "\<bar>x\<bar> < 10 ^ w" and "0 < w"
  shows "adjusted x \<le> int w - 1"
proof (cases "1 \<le> \<bar>x\<bar>")
  case True
  have "\<lfloor>\<bar>x\<bar>\<rfloor> < 10 ^ w" using assms(1) by (simp add: floor_less_iff)
  then have "nat \<lfloor>\<bar>x\<bar>\<rfloor> < 10 ^ w" by (simp add: nat_less_iff)
  then have "ndigits (nat \<lfloor>\<bar>x\<bar>\<rfloor>) \<le> w" using assms(2) by (rule ndigits_le)
  with True show ?thesis by (simp add: adjusted_def)
next
  case False
  have "0 < ndigits (nat \<lfloor>1 / \<bar>x\<bar>\<rfloor>)" by (rule ndigits_pos)
  with False assms(2) show ?thesis by (auto simp: adjusted_def Let_def)
qed

lemma round_half_even_int: "round_half_even (of_int z) = z"
  by (simp add: round_half_even_def)

text \<open>A value with at most \<open>m\<close> decimal places and fewer than 28 digits in all is not
  changed by the context.\<close>

lemma ctx_round_exact:
  assumes "m \<le> 27" and "x * 10 ^ m = of_int k" and "\<bar>x\<bar> * 10 ^ m < 10 ^ 28"
  shows "ctx_round x = x"
proof (cases "x = 0")
  case True
  then show ?thesis by (simp add: ctx_round_def)
next
  case False
  have "\<bar>x\<bar> < 10 ^ (28 - m)"
  proof -
    have "\<bar>x\<bar> * 10 ^ m < 10 ^ (28 - m) * 10 ^ m"
      using assms(1,3) by (simp add: power_add[symmetric])
    then show ?thesis by simp
  qed
  then have "adjusted x \<le> int (28 - m) - 1"
    using assms(1) by (intro adjusted_le) simp_all
  then have le: "int m \<le> 27 - adjusted x" using assms(1) by simp
  define j where "j = nat (27 - adjusted x - int m)"
  have j: "nat (27 - adjusted x) = m + j" and neg: "adjusted x - 27 < 0 \<or> adjusted x - 27 = 0"
    using le by (auto simp: j_def)
  have q: "pow10 (adjusted x - 27) = 1 / 10 ^ (m + j)"
  proof (cases "adjusted x - 27 = 0")
    case True
    then have "m + j = 0" using j by simp
    with True show ?thesis by (simp add: pow10_def)
  next
    case False
    with neg have "adjusted x - 27 < 0" by simp
    then show ?thesis using j by (simp add: pow10_def)
  qed
  have "x / pow10 (adjusted x - 27) = x * 10 ^ m * 10 ^ j" by (simp add: q power_add)
  also have "\<dots> = of_int (k * 10 ^ j)" by (simp add: assms(2))
  finally have int: "x / pow10 (adjusted x - 27) = of_int (k * 10 ^ j)" .
  have "ctx_round x = of_int (k * 10 ^ j) * pow10 (adjusted x - 27)"
    using False
    by (simp add: ctx_round_def Let_def int round_half_even_int del: of_int_mult of_int_power)
  also have "\<dots> = x / pow10 (adjusted x - 27) * pow10 (adjusted x - 27)" by (simp only: int)
  also have "\<dots> = x" by (simp add: q)
  finally show ?thesis .
qed

lemma two_places_iff: "two_places x \<longleftrightarrow> (\<exists>k. x * 100 = of_int k)"
  by (auto simp: two_places_def)

lemma ctx_round_two_places:
  assumes "two_places x" and "\<bar>x\<bar> < 10 ^ 26"
  shows "ctx_round x = x"
proof -
  from assms(1) obtain k where "x * 10 ^ 2 = of_int k" by (auto simp: two_places_iff)
  moreover have "\<bar>x\<bar> * 10 ^ 2 < 10 ^ 28" using assms(2) by simp
  ultimately show ?thesis by (intro ctx_round_exact[of 2 x k]) simp_all
qed

lemma store_two_places:
  assumes "two_places x"
  shows "store_decimal2 x = x"
proof -
  from assms obtain k where k: "x * 100 = of_int k" by (auto simp: two_places_iff)
  then have a: "\<bar>x\<bar> * 100 = of_int \<bar>k\<bar>" by (metis abs_mult abs_numeral of_int_abs)
  then have "\<lfloor>\<bar>x\<bar> * 100 + 1 / 2\<rfloor> = \<bar>k\<bar>" by (intro floor_unique) simp_all
  moreover have "sgn x * of_int \<bar>k\<bar> = of_int k"
    using k a by (metis mult.assoc mult_sgn_abs)
  ultimately show ?thesis using k by (simp add: store_decimal2_def)
qed








lemma floor_numeral_div:
  "\<lfloor>(numeral a :: rat) / numeral b\<rfloor> = numeral a div numeral b"
  by (metis floor_divide_of_int_eq of_int_numeral)

lemmas decimal_eval =
  py_mul_def py_add_def py_sum_def ctx_round_def adjusted_def pow10_def round_half_even_def
  ndigits.simps store_decimal2_def floor_numeral_div

text \<open>The context at work: three times a price of thirty threes after the point has thirty
  nines, and comes back as 1; a tie goes to the even digit.  The column keeps two places.\<close>

lemma py_mul_rounds:
  "py_mul 3 (333333333333333333333333333333 / 1000000000000000000000000000000) = 1"
  by (simp add: decimal_eval Let_def)

lemma py_add_half_even:
  "py_add 12345678901234567890123456780 5 = 12345678901234567890123456780"
  "py_add 12345678901234567890123456770 5 = 12345678901234567890123456780"
  by (simp_all add: decimal_eval Let_def)



subsection \<open>Evaluating the examples\<close>

lemmas create_eval =
  create_def assemble_def cart_lines_def find_product_def
  order_number_of_def str_int_def str_nat.simps digit_char_def
  order_number_taken_def insert_order_def new_order_def order_total_def line_total_def
  has_vip_of_def read_stock_def write_order_def new_order_items_def deduct_def clear_cart_def
  split_order_funds_def split_amounts_def round_minor_def post_flow_def split_row_def
  shipping_of_def no_shipping_def dict_get_def dict_get_default_def Let_def
  py_mul_def py_add_def py_sum_def ctx_round_two_places store_two_places two_places_def
  floor_numeral_div

lemmas example_data =
  empty_db_def shop_db_def env0_def cfg0_def checkout_req_def buy_now_req_def


lemma checkout_example:
  "create cfg0 env0 checkout_req shop_db =
     (Inr (Some ''202401011200007123456''), snd (create cfg0 env0 checkout_req shop_db))"
proof -
  have "fst (create cfg0 env0 checkout_req shop_db) = Inr (Some ''202401011200007123456'')"
    by (simp add: create_eval example_data)
  then show ?thesis
    by (metis prod.collapse)
qed

subsection \<open>Totals of a created order\<close>









subsection \<open>The stock check and the rollback\<close>

lemma read_stock_insert_order [simp]:
  "read_stock (insert_order e req items addr d) pid = read_stock d pid"
  by (simp add: read_stock_def insert_order_def split: option.splits)

lemma check_stock_insert_order [simp]:
  "check_stock (insert_order e req items' addr d) items = check_stock d items"
  by (induction items) (simp_all add: Let_def)




lemma create_None_unchanged:
  "create cfg e req d = (Inr None, d') \<Longrightarrow> d' = d"
  by (auto simp: create_def Let_def split: sum.splits option.splits if_splits prod.splits)




subsection \<open>Stock after a creation\<close>

text \<open>
  C4 at two requests the code accepts.  First: one buy-now order with two lines of 2
  pieces each for product 2, whose only SKU has 3 in stock; each line passes the check
  against 3, both are deducted, and the stock ends at -1.  Second: product 1 has the
  SKUs 10 (stock 5) and 11 (stock 0); one piece of SKU 11 is ordered; the check reads
  the first row of the product (5), and the update deducts the piece from both rows:
  SKU 11 ends at -1 and SKU 10, which the order does not reference, at 4.
\<close>

theorem C4_stock_goes_negative:
  "map s_stock (product_skus shop_db) = [Some 5, Some 3]
   \<and> fst (create cfg0 env0
          (buy_now_req 7
             [\<lparr>bi_product_id = 2, bi_sku_id = 20, bi_quantity = 2, bi_price = 50\<rparr>,
              \<lparr>bi_product_id = 2, bi_sku_id = 20, bi_quantity = 2, bi_price = 50\<rparr>])
          shop_db) = Inr (Some ''202401011200007123456'')
   \<and> map s_stock (product_skus (snd (create cfg0 env0
          (buy_now_req 7
             [\<lparr>bi_product_id = 2, bi_sku_id = 20, bi_quantity = 2, bi_price = 50\<rparr>,
              \<lparr>bi_product_id = 2, bi_sku_id = 20, bi_quantity = 2, bi_price = 50\<rparr>])
          shop_db))) = [Some 5, Some (- 1)]
   \<and> map s_stock (product_skus two_sku_db) = [Some 5, Some 0]
   \<and> fst (create cfg0 env0
          (buy_now_req 7 [\<lparr>bi_product_id = 1, bi_sku_id = 11, bi_quantity = 1, bi_price = 120\<rparr>])
          two_sku_db) = Inr (Some ''202401011200007123456'')
   \<and> map s_stock (product_skus (snd (create cfg0 env0
          (buy_now_req 7 [\<lparr>bi_product_id = 1, bi_sku_id = 11, bi_quantity = 1, bi_price = 120\<rparr>])
          two_sku_db))) = [Some 4, Some (- 1)]"
  by (simp add: create_eval example_data two_sku_db_def)

subsection \<open>What creation looks up\<close>

text \<open>
  C8 at a request the code accepts.  User 7 buys one piece of product 1 under SKU id
  999; no SKU 999 exists.  Only the product is looked up: the order is created, its
  line carries SKU 999, and the stock of the product's SKU 10 is reduced.
\<close>

theorem C8_unknown_sku_accepted:
  "\<not> list_ex (\<lambda>s. s_id s = 999) (product_skus shop_db)
   \<and> fst (create cfg0 env0
          (buy_now_req 7 [\<lparr>bi_product_id = 1, bi_sku_id = 999, bi_quantity = 1, bi_price = 100\<rparr>])
          shop_db) = Inr (Some ''202401011200007123456'')
   \<and> map oi_sku_id (order_items (snd (create cfg0 env0
          (buy_now_req 7 [\<lparr>bi_product_id = 1, bi_sku_id = 999, bi_quantity = 1, bi_price = 100\<rparr>])
          shop_db))) = [999]
   \<and> map s_stock (product_skus (snd (create cfg0 env0
          (buy_now_req 7 [\<lparr>bi_product_id = 1, bi_sku_id = 999, bi_quantity = 1, bi_price = 100\<rparr>])
          shop_db))) = [Some 4, Some 3]"
  by (simp add: create_eval example_data)

subsection \<open>Payment and status updates\<close>

lemma update_status_orders:
  "orders (snd (update_status n st reason d)) =
     map (\<lambda>row. if o_order_number row = Some n then set_status st reason row else row) (orders d)"
  by (simp add: update_status_def Let_def)

lemma update_status_frame:
  "order_items (snd (update_status n st reason d)) = order_items d"
  "products (snd (update_status n st reason d)) = products d"
  "product_skus (snd (update_status n st reason d)) = product_skus d"
  "refunds (snd (update_status n st reason d)) = refunds d"
  "order_split (snd (update_status n st reason d)) = order_split d"
  "account_flow (snd (update_status n st reason d)) = account_flow d"
  by (simp_all add: update_status_def Let_def)

lemma order_pay_legal:
  "op_pay_way body \<in> set V \<Longrightarrow>
     order_pay V body d =
       (Inr (fst (update_status (op_order_number body) ''pending_ship'' None d)),
        snd (update_status (op_order_number body) ''pending_ship'' None d))"
  by (simp add: order_pay_def split: prod.splits)

text \<open>
  C7, as stated, fails: paying, with a legal payment method, an order that is already
  completed moves it to pending_ship.
\<close>

theorem C7_counterexample:
  "map o_status (orders (orders_db [sample_order 1 ''N1'' ''completed'' 200])) = [''completed'']
   \<and> fst (order_pay [''wechat'', ''alipay'']
            \<lparr>op_order_number = ''N1'', op_pay_way = ''wechat''\<rparr>
            (orders_db [sample_order 1 ''N1'' ''completed'' 200])) = Inr True
   \<and> map o_status (orders (snd (order_pay [''wechat'', ''alipay'']
            \<lparr>op_order_number = ''N1'', op_pay_way = ''wechat''\<rparr>
            (orders_db [sample_order 1 ''N1'' ''completed'' 200])))) = [''pending_ship'']"
  by (simp add: order_pay_def update_status_def set_status_def orders_db_def sample_order_def
        empty_db_def Let_def)

text \<open>
  C7, amended.  The pay operation checks the payment method against the allow-list: an
  illegal method is rejected with the 422 validation error and the database is
  unchanged.  With a legal method the order with the given number is set to
  pending_ship whatever its status was (pending_pay included), every other order keeps
  its status, and the answer is true exactly when a row with that number was changed.
\<close>

theorem C7_pay:
  "(op_pay_way body \<notin> set V \<longrightarrow>
       order_pay V body d = (Inl IllegalPayWay, d) \<and> status_code IllegalPayWay = 422)
   \<and> (op_pay_way body \<in> set V \<longrightarrow>
       (\<exists>ok d'. order_pay V body d = (Inr ok, d')
          \<and> map o_status (orders d') =
              map (\<lambda>row. if o_order_number row = Some (op_order_number body)
                          then ''pending_ship'' else o_status row) (orders d)
          \<and> map o_order_number (orders d') = map o_order_number (orders d)
          \<and> (ok \<longleftrightarrow> list_ex (\<lambda>row. o_order_number row = Some (op_order_number body)
                              \<and> \<not> (o_status row = ''pending_ship'' \<and> o_refund_reason row = None))
                        (orders d))))"
proof (intro conjI impI)
  assume "op_pay_way body \<notin> set V"
  then show "order_pay V body d = (Inl IllegalPayWay, d)"
    by (simp add: order_pay_def)
next
  show "status_code IllegalPayWay = 422" by simp
next
  assume legal: "op_pay_way body \<in> set V"
  let ?n = "op_order_number body"
  let ?u = "update_status ?n ''pending_ship'' None d"
  have 1: "order_pay V body d = (Inr (fst ?u), snd ?u)"
    using legal by (rule order_pay_legal)
  have 2: "map o_status (orders (snd ?u)) =
             map (\<lambda>row. if o_order_number row = Some ?n then ''pending_ship'' else o_status row)
               (orders d)"
    by (simp add: update_status_orders set_status_def)
  have 3: "map o_order_number (orders (snd ?u)) = map o_order_number (orders d)"
    by (simp add: update_status_orders set_status_def)
  have 4: "fst ?u \<longleftrightarrow> list_ex (\<lambda>row. o_order_number row = Some ?n
              \<and> \<not> (o_status row = ''pending_ship'' \<and> o_refund_reason row = None)) (orders d)"
    by (simp add: update_status_def Let_def list_ex_iff filter_empty_conv)
  from 1 2 3 4 show "\<exists>ok d'. order_pay V body d = (Inr ok, d')
          \<and> map o_status (orders d') =
              map (\<lambda>row. if o_order_number row = Some ?n then ''pending_ship'' else o_status row)
                (orders d)
          \<and> map o_order_number (orders d') = map o_order_number (orders d)
          \<and> (ok \<longleftrightarrow> list_ex (\<lambda>row. o_order_number row = Some ?n
                              \<and> \<not> (o_status row = ''pending_ship'' \<and> o_refund_reason row = None))
                        (orders d))"
    by blast
qed

theorem C7_pay_witness:
  "order_pay [''wechat'', ''alipay''] \<lparr>op_order_number = ''N1'', op_pay_way = ''cash''\<rparr>
      (orders_db [sample_order 1 ''N1'' ''pending_pay'' 200])
     = (Inl IllegalPayWay, orders_db [sample_order 1 ''N1'' ''pending_pay'' 200])
   \<and> fst (order_pay [''wechat'', ''alipay''] \<lparr>op_order_number = ''N1'', op_pay_way = ''wechat''\<rparr>
      (orders_db [sample_order 1 ''N1'' ''pending_pay'' 200, sample_order 2 ''N2'' ''pending_recv'' 50]))
     = Inr True
   \<and> map o_status (orders (snd (order_pay [''wechat'', ''alipay'']
        \<lparr>op_order_number = ''N1'', op_pay_way = ''wechat''\<rparr>
        (orders_db [sample_order 1 ''N1'' ''pending_pay'' 200, sample_order 2 ''N2'' ''pending_recv'' 50]))))
     = [''pending_ship'', ''pending_recv'']"
proof -
  let ?V = "[''wechat'', ''alipay'']"
  let ?d1 = "orders_db [sample_order 1 ''N1'' ''pending_pay'' 200]"
  let ?d2 = "orders_db [sample_order 1 ''N1'' ''pending_pay'' 200, sample_order 2 ''N2'' ''pending_recv'' 50]"
  have a: "order_pay ?V \<lparr>op_order_number = ''N1'', op_pay_way = ''cash''\<rparr> ?d1 = (Inl IllegalPayWay, ?d1)"
    using C7_pay [of "\<lparr>op_order_number = ''N1'', op_pay_way = ''cash''\<rparr>" ?V ?d1] by simp
  obtain ok d' where b:
    "order_pay ?V \<lparr>op_order_number = ''N1'', op_pay_way = ''wechat''\<rparr> ?d2 = (Inr ok, d')"
    "map o_status (orders d') =
       map (\<lambda>row. if o_order_number row = Some ''N1'' then ''pending_ship'' else o_status row)
         (orders ?d2)"
    "ok \<longleftrightarrow> list_ex (\<lambda>row. o_order_number row = Some ''N1''
                \<and> \<not> (o_status row = ''pending_ship'' \<and> o_refund_reason row = None)) (orders ?d2)"
    using C7_pay [of "\<lparr>op_order_number = ''N1'', op_pay_way = ''wechat''\<rparr>" ?V ?d2] by auto
  have "ok" using b(3) by (simp add: orders_db_def sample_order_def)
  moreover have "map o_status (orders d') = [''pending_ship'', ''pending_recv'']"
    using b(2) by (simp add: orders_db_def sample_order_def)
  ultimately show ?thesis
    using a b(1) by simp
qed

subsection \<open>The specification blob in \<^verbatim>\<open>refund_reason\<close>\<close>

lemma find_map_number:
  assumes "\<And>row. o_order_number (f row) = o_order_number row"
  shows "find (\<lambda>row. o_order_number row = Some n) (map f rows) =
           map_option f (find (\<lambda>row. o_order_number row = Some n) rows)"
  using assms by (induction rows) simp_all

lemma detail_specifications:
  "map_option od_specifications (detail n d) =
     map_option o_refund_reason (order_by_number d n)"
  by (simp add: detail_def split: option.splits)

lemma order_by_number_update_status:
  "order_by_number (snd (update_status n st reason d)) n =
     map_option (set_status st reason) (order_by_number d n)"
proof -
  let ?f = "\<lambda>row. if o_order_number row = Some n then set_status st reason row else row"
  have "find (\<lambda>row. o_order_number row = Some n) (map ?f (orders d)) =
          map_option ?f (find (\<lambda>row. o_order_number row = Some n) (orders d))"
    by (rule find_map_number) (simp add: set_status_def)
  moreover have "map_option ?f (find (\<lambda>row. o_order_number row = Some n) (orders d)) =
          map_option (set_status st reason) (find (\<lambda>row. o_order_number row = Some n) (orders d))"
    by (cases "find (\<lambda>row. o_order_number row = Some n) (orders d)")
       (auto dest: find_Some_iff[THEN iffD1])
  ultimately show ?thesis
    by (simp add: order_by_number_def update_status_orders)
qed

text \<open>
  C10.  After any call of the status update, every order row with the given number
  has the supplied reason (or NULL, if none was supplied) in refund_reason, together
  with the new status.  In particular: after a successful creation, detail shows the
  request's specifications for the new order; after paying that order with a legal
  payment method, detail shows no specifications for it, and neither does any entry
  of that order in a list of orders.
\<close>

theorem C10_status_update_erases_specifications:
  "list_all (\<lambda>row. o_order_number row = Some n \<longrightarrow> o_refund_reason row = reason \<and> o_status row = st)
     (orders (snd (update_status n st reason d)))
   \<and> (create cfg e req d0 = (Inr (Some m), d1) \<and> pay_way \<in> set V \<longrightarrow>
        map_option od_specifications (detail m d1) = Some (oc_specifications req)
        \<and> map_option od_specifications
            (detail m (snd (order_pay V \<lparr>op_order_number = m, op_pay_way = pay_way\<rparr> d1)))
          = Some None
        \<and> list_all (\<lambda>en. o_order_number (le_order en) = Some m \<longrightarrow> le_specifications en = None)
            (list_by_user user_id status
               (snd (order_pay V \<lparr>op_order_number = m, op_pay_way = pay_way\<rparr> d1))))"
proof (intro conjI impI)
  show "list_all (\<lambda>row. o_order_number row = Some n \<longrightarrow> o_refund_reason row = reason \<and> o_status row = st)
          (orders (snd (update_status n st reason d)))"
    by (auto simp: update_status_orders list_all_iff set_status_def)
next
  assume asm: "create cfg e req d0 = (Inr (Some m), d1) \<and> pay_way \<in> set V"
  then obtain items addr where
    m: "m = order_number_of e (oc_user_id req)"
    and fresh: "\<not> order_number_taken d0 m"
    and d1: "d1 = write_order cfg req (orders_auto_increment d0) m items
                    (insert_order e req items addr d0)"
    by (auto elim: create_SomeE)
  let ?row = "new_order e req (orders_auto_increment d0) m (order_total items) (has_vip_of items) addr"
  have found: "order_by_number d1 m = Some ?row"
    using fresh m d1 by (rule created_order_row)
  show "map_option od_specifications (detail m d1) = Some (oc_specifications req)"
    by (simp add: detail_specifications found new_order_def)
  let ?d2 = "snd (order_pay V \<lparr>op_order_number = m, op_pay_way = pay_way\<rparr> d1)"
  have d2: "?d2 = snd (update_status m ''pending_ship'' None d1)"
    using asm by (simp add: order_pay_legal)
  show "map_option od_specifications (detail m ?d2) = Some None"
    by (simp add: detail_specifications d2 order_by_number_update_status found set_status_def)
  show "list_all (\<lambda>en. o_order_number (le_order en) = Some m \<longrightarrow> le_specifications en = None)
          (list_by_user user_id status ?d2)"
    by (auto simp: d2 list_by_user_def update_status_orders list_all_iff set_status_def
             split: if_splits)
qed

theorem C10_status_update_erases_specifications_witness:
  "map o_refund_reason (orders (orders_db [sample_order 1 ''N1'' ''pending_ship'' 200])) = [Some ''size=L'']
   \<and> map o_refund_reason
        (orders (snd (update_status ''N1'' ''pending_recv'' None
                       (orders_db [sample_order 1 ''N1'' ''pending_ship'' 200])))) = [None]
   \<and> create cfg0 env0 checkout_req shop_db =
        (Inr (Some ''202401011200007123456''), snd (create cfg0 env0 checkout_req shop_db))
   \<and> map_option od_specifications
        (detail ''202401011200007123456'' (snd (create cfg0 env0 checkout_req shop_db)))
      = Some (Some ''size=L'')
   \<and> map_option od_specifications
        (detail ''202401011200007123456''
           (snd (order_pay [''wechat'']
                   \<lparr>op_order_number = ''202401011200007123456'', op_pay_way = ''wechat''\<rparr>
                   (snd (create cfg0 env0 checkout_req shop_db)))))
      = Some None
   \<and> map le_specifications
        (list_by_user 7 None
           (snd (order_pay [''wechat'']
                   \<lparr>op_order_number = ''202401011200007123456'', op_pay_way = ''wechat''\<rparr>
                   (snd (create cfg0 env0 checkout_req shop_db)))))
      = [None]"
proof -
  let ?d = "orders_db [sample_order 1 ''N1'' ''pending_ship'' 200]"
  let ?m = "''202401011200007123456''"
  let ?d1 = "snd (create cfg0 env0 checkout_req shop_db)"
  let ?d2 = "snd (order_pay [''wechat''] \<lparr>op_order_number = ?m, op_pay_way = ''wechat''\<rparr> ?d1)"
  note inst = C10_status_update_erases_specifications
               [where n = "''N1''" and reason = None and st = "''pending_recv''" and d = ?d
                  and cfg = cfg0 and e = env0 and req = checkout_req and ?d0.0 = shop_db
                  and m = ?m and ?d1.0 = ?d1 and pay_way = "''wechat''" and V = "[''wechat'']"
                  and user_id = 7 and status = None]
  have before: "map o_refund_reason (orders ?d) = [Some ''size=L'']"
    by (simp add: orders_db_def sample_order_def)
  have len: "map o_order_number (orders (snd (update_status ''N1'' ''pending_recv'' None ?d))) = [Some ''N1'']"
    by (simp add: update_status_orders orders_db_def sample_order_def set_status_def)
  have after: "map o_refund_reason (orders (snd (update_status ''N1'' ''pending_recv'' None ?d))) = [None]"
    using inst len by (auto simp: list_all_iff)
  have spec: "oc_specifications checkout_req = Some ''size=L''"
    by (simp add: checkout_req_def)
  have shown: "map_option od_specifications (detail ?m ?d1) = Some (Some ''size=L'')"
    and gone: "map_option od_specifications (detail ?m ?d2) = Some None"
    and listed: "list_all (\<lambda>en. o_order_number (le_order en) = Some ?m \<longrightarrow> le_specifications en = None)
                   (list_by_user 7 None ?d2)"
    using inst checkout_example spec by simp_all
  have entries: "map (o_order_number \<circ> le_order) (list_by_user 7 None ?d2) = [Some ?m]"
    by (simp add: list_by_user_def order_pay_def update_status_def set_status_def
          create_eval example_data)
  have "map le_specifications (list_by_user 7 None ?d2) = [None]"
    using listed entries by (auto simp: list_all_iff)
  then show ?thesis
    using before after checkout_example shown gone by simp
qed

subsection \<open>One tick of the auto-receive scheduler\<close>

lemma complete_order_ids [simp]:
  "map o_id (complete_order oid rows) = map o_id rows"
  by (simp add: complete_order_def comp_def)

lemma completed_ids_Nil [simp]: "completed_ids [] rows = rows"
  by (simp add: completed_ids_def)

lemma completed_ids_Cons:
  "completed_ids (oid # ids) rows = completed_ids ids (complete_order oid rows)"
  by (auto simp: completed_ids_def complete_order_def)

lemma process_rows_frame:
  "\<exists>rows'. fst (snd (process_rows settle rows d s)) = d\<lparr>orders := rows'\<rparr>"
proof (induction rows arbitrary: d s)
  case Nil
  have "d = d\<lparr>orders := orders d\<rparr>" by simp
  then show ?case by (metis process_rows.simps(1) fst_conv snd_conv)
next
  case (Cons row rest)
  show ?case
  proof (cases "settle (o_total_amount row) s")
    case (Inl exn)
    have "d = d\<lparr>orders := orders d\<rparr>" by simp
    with Inl show ?thesis by (metis process_rows.simps(2) sum.simps(5) fst_conv snd_conv)
  next
    case (Inr s1)
    from Cons.IH[of "d\<lparr>orders := complete_order (o_id row) (orders d)\<rparr>" s1]
    show ?thesis using Inr by simp
  qed
qed

lemma process_rows_result:
  "process_rows settle rows d s = (res, d', s') \<Longrightarrow>
     orders d' = completed_ids (map o_id (take (settled_count settle rows s) rows)) (orders d)
     \<and> (res = None \<longleftrightarrow> settled_count settle rows s = length rows)"
proof (induction rows arbitrary: d s)
  case Nil
  then show ?case by auto
next
  case (Cons row rest)
  show ?case
  proof (cases "settle (o_total_amount row) s")
    case (Inl exn)
    with Cons.prems show ?thesis by auto
  next
    case (Inr s1)
    let ?d1 = "d\<lparr>orders := complete_order (o_id row) (orders d)\<rparr>"
    from Cons.prems Inr have "process_rows settle rest ?d1 s1 = (res, d', s')"
      by simp
    from Cons.IH[OF this] Inr show ?thesis
      by (simp add: completed_ids_Cons)
  qed
qed

lemma filter_not_in_prefix:
  "set as \<inter> set bs = {} \<Longrightarrow> filter (\<lambda>x. x \<notin> set as) (as @ bs) = bs"
  by (auto simp: filter_empty_conv filter_id_conv)

lemma filter_not_in_take:
  assumes "distinct ys"
  shows "filter (\<lambda>x. x \<notin> set (take k ys)) ys = drop k ys"
proof -
  have "set (take k ys) \<inter> set (drop k ys) = {}"
    using assms by (metis append_take_drop_id distinct_append)
  from filter_not_in_prefix[OF this] show ?thesis by simp
qed

lemma due_after_completion:
  assumes "distinct (map o_id rows)"
  shows "filter (due t) (completed_ids (map o_id (take k (filter (due t) rows))) rows)
           = drop k (filter (due t) rows)"
proof -
  let ?ys = "filter (due t) rows"
  let ?ids = "map o_id (take k ?ys)"
  have inj: "inj_on o_id (set rows)"
    using assms by (simp add: distinct_map)
  have mem: "o_id x \<in> o_id ` set (take k ?ys) \<longleftrightarrow> x \<in> set (take k ?ys)" if "x \<in> set rows" for x
  proof
    assume "o_id x \<in> o_id ` set (take k ?ys)"
    then obtain y where y: "y \<in> set (take k ?ys)" "o_id y = o_id x" by auto
    then have "y \<in> set rows" by (auto dest: in_set_takeD)
    with inj that y(2) have "y = x" by (auto dest: inj_onD)
    with y(1) show "x \<in> set (take k ?ys)" by simp
  qed auto
  have not_due: "\<not> due t (x\<lparr>o_status := ''completed''\<rparr>)" for x
    by (simp add: due_def)
  have "filter (due t) (completed_ids ?ids rows) = filter (\<lambda>x. due t x \<and> x \<notin> set (take k ?ys)) rows"
    unfolding completed_ids_def filter_map
  proof -
    have "filter (due t \<circ> (\<lambda>row. if o_id row \<in> set ?ids then row\<lparr>o_status := ''completed''\<rparr> else row)) rows
            = filter (\<lambda>x. due t x \<and> x \<notin> set (take k ?ys)) rows"
      by (rule filter_cong) (auto simp: mem not_due)
    moreover have "map (\<lambda>row. if o_id row \<in> set ?ids then row\<lparr>o_status := ''completed''\<rparr> else row)
             (filter (\<lambda>x. due t x \<and> x \<notin> set (take k ?ys)) rows)
            = filter (\<lambda>x. due t x \<and> x \<notin> set (take k ?ys)) rows"
      by (rule map_idI) (auto simp: mem)
    ultimately show "map (\<lambda>row. if o_id row \<in> set ?ids then row\<lparr>o_status := ''completed''\<rparr> else row)
        (filter (due t \<circ> (\<lambda>row. if o_id row \<in> set ?ids then row\<lparr>o_status := ''completed''\<rparr> else row)) rows)
        = filter (\<lambda>x. due t x \<and> x \<notin> set (take k ?ys)) rows"
      by simp
  qed
  also have "\<dots> = filter (\<lambda>x. x \<notin> set (take k ?ys)) ?ys"
    by (simp add: conj_commute)
  also have "\<dots> = drop k ?ys"
    using assms by (intro filter_not_in_take) (simp add: distinct_map_filter distinct_map[THEN iffD1])
  finally show ?thesis .
qed

text \<open>
  C9, as stated, fails: two orders are due, the settlement of the first raises, and the
  tick ends there; the second order, whose settlement would have succeeded, is not
  processed in this tick.
\<close>

theorem C9_counterexample:
  "fst (auto_receive_tick settle_demo 1000
          (orders_db [sample_order 1 ''N1'' ''pending_recv'' 200,
                      sample_order 2 ''N2'' ''pending_recv'' 50]) 0) = Some ''boom''
   \<and> map o_status (orders (fst (snd (auto_receive_tick settle_demo 1000
          (orders_db [sample_order 1 ''N1'' ''pending_recv'' 200,
                      sample_order 2 ''N2'' ''pending_recv'' 50]) 0))))
       = [''pending_recv'', ''pending_recv'']
   \<and> settle_demo 50 0 = Inr 50"
  by (simp add: auto_receive_tick_def due_def settle_demo_def orders_db_def sample_order_def
        empty_db_def)

text \<open>
  C9, amended.  Within one tick the due orders are processed in order, and each order's
  completion is committed on its own once its settlement has returned.  The first
  failure ends the tick: the orders before it are completed, the failed order's
  transition is rolled back, and it and every due order after it stay pending_recv
  with their deadline passed, so that a later selection finds them again, while the
  completed ones are not selected again.  The tick reports no exception exactly when
  it got through all due orders.
\<close>

theorem C9_tick:
  assumes "distinct (map o_id (orders d))"
    and "auto_receive_tick settle now_t d s = (res, d', s')"
  shows "orders d' =
           completed_ids
             (map o_id (take (settled_count settle (filter (due now_t) (orders d)) s)
                          (filter (due now_t) (orders d))))
             (orders d)
         \<and> filter (due now_t) (orders d') =
             drop (settled_count settle (filter (due now_t) (orders d)) s)
               (filter (due now_t) (orders d))
         \<and> (res = None \<longleftrightarrow>
              settled_count settle (filter (due now_t) (orders d)) s
                = length (filter (due now_t) (orders d)))
         \<and> d' = d\<lparr>orders := orders d'\<rparr>"
proof -
  let ?rows = "filter (due now_t) (orders d)"
  from assms(2) have "process_rows settle ?rows d s = (res, d', s')"
    by (simp add: auto_receive_tick_def)
  from process_rows_result[OF this]
  have 1: "orders d' = completed_ids (map o_id (take (settled_count settle ?rows s) ?rows)) (orders d)"
    and 2: "res = None \<longleftrightarrow> settled_count settle ?rows s = length ?rows"
    by blast+
  from process_rows_frame[of settle ?rows d s] assms(2)
  obtain rows' where "d' = d\<lparr>orders := rows'\<rparr>"
    by (auto simp: auto_receive_tick_def)
  then have 3: "d' = d\<lparr>orders := orders d'\<rparr>"
    by simp
  have "filter (due now_t) (orders d') = drop (settled_count settle ?rows s) ?rows"
    unfolding 1 using assms(1) by (rule due_after_completion)
  with 1 2 3 show ?thesis by blast
qed

theorem C9_tick_witness:
  "distinct (map o_id (orders (orders_db [sample_order 1 ''N1'' ''pending_recv'' 50,
                                          sample_order 2 ''N2'' ''pending_recv'' 200,
                                          sample_order 3 ''N3'' ''pending_recv'' 30])))
   \<and> fst (auto_receive_tick settle_demo 1000
            (orders_db [sample_order 1 ''N1'' ''pending_recv'' 50,
                        sample_order 2 ''N2'' ''pending_recv'' 200,
                        sample_order 3 ''N3'' ''pending_recv'' 30]) 0) = Some ''boom''
   \<and> map o_status (orders (fst (snd (auto_receive_tick settle_demo 1000
            (orders_db [sample_order 1 ''N1'' ''pending_recv'' 50,
                        sample_order 2 ''N2'' ''pending_recv'' 200,
                        sample_order 3 ''N3'' ''pending_recv'' 30]) 0))))
       = [''completed'', ''pending_recv'', ''pending_recv'']
   \<and> map o_id (filter (due 1000) (orders (fst (snd (auto_receive_tick settle_demo 1000
            (orders_db [sample_order 1 ''N1'' ''pending_recv'' 50,
                        sample_order 2 ''N2'' ''pending_recv'' 200,
                        sample_order 3 ''N3'' ''pending_recv'' 30]) 0)))))
       = [2, 3]"
proof -
  let ?d = "orders_db [sample_order 1 ''N1'' ''pending_recv'' 50,
                       sample_order 2 ''N2'' ''pending_recv'' 200,
                       sample_order 3 ''N3'' ''pending_recv'' 30]"
  let ?t = "auto_receive_tick settle_demo 1000 ?d 0"
  have dist: "distinct (map o_id (orders ?d))"
    by (simp add: orders_db_def sample_order_def)
  have run: "?t = (fst ?t, fst (snd ?t), snd (snd ?t))"
    by simp
  have rows: "filter (due 1000) (orders ?d) = orders ?d"
    by (simp add: due_def orders_db_def sample_order_def)
  have k: "settled_count settle_demo (orders ?d) 0 = 1"
    by (simp add: settle_demo_def orders_db_def sample_order_def)
  note r = C9_tick [OF dist run, unfolded rows k]
  have 1: "orders (fst (snd ?t)) = completed_ids (map o_id (take 1 (orders ?d))) (orders ?d)"
    and 2: "filter (due 1000) (orders (fst (snd ?t))) = drop 1 (orders ?d)"
    and 3: "fst ?t = None \<longleftrightarrow> (1::nat) = length (orders ?d)"
    using r by blast+
  have a: "map o_status (orders (fst (snd ?t))) = [''completed'', ''pending_recv'', ''pending_recv'']"
    unfolding 1 by (simp add: completed_ids_def orders_db_def sample_order_def)
  have b: "map o_id (filter (due 1000) (orders (fst (snd ?t)))) = [2, 3]"
    unfolding 2 by (simp add: orders_db_def sample_order_def)
  have "fst ?t \<noteq> None"
    using 3 by (simp add: orders_db_def)
  moreover have "fst ?t = None \<or> fst ?t = Some ''boom''"
    by (simp add: auto_receive_tick_def due_def settle_demo_def orders_db_def sample_order_def
          empty_db_def)
  ultimately have c: "fst ?t = Some ''boom''" by auto
  from dist c a b show ?thesis by (intro conjI)
qed

subsection \<open>The fund split\<close>











lemma splits_of_write_split:
  "splits_of (write_split n xs d) n = splits_of d n @ map (\<lambda>(dst, a). split_row n dst a) xs"
  by (simp add: splits_of_def write_split_rows split_row_def split_beta)






subsection \<open>Ledger arithmetic\<close>




lemma net_flow_cong:
  "account_flow d1 = account_flow d2 \<Longrightarrow> net_flow d1 n a = net_flow d2 n a"
  by (simp add: net_flow_def)

lemma split_sum_cong:
  "order_split d1 = order_split d2 \<Longrightarrow> split_sum d1 n a = split_sum d2 n a"
  by (simp add: split_sum_def splits_of_def)

lemma reverse_rows_frame [simp]:
  "users (reverse_rows n rows d) = users d"
  "products (reverse_rows n rows d) = products d"
  "product_skus (reverse_rows n rows d) = product_skus d"
  "cart (reverse_rows n rows d) = cart d"
  "orders (reverse_rows n rows d) = orders d"
  "order_items (reverse_rows n rows d) = order_items d"
  "refunds (reverse_rows n rows d) = refunds d"
  "order_split (reverse_rows n rows d) = order_split d"
  by (induction n rows d rule: reverse_rows.induct; simp)+







subsection \<open>Refund audit\<close>






end
